theory Spec2Isabelle
  imports Main
begin

section \<open>JavaScript values\<close>

text \<open>
  The values the helpers, models and middleware handle. \<open>JNum n\<close> is the integer-valued
  number \<open>n\<close>, which the language writes in decimal digits (up to 21 of them). An
  object is the list of its own properties in \<open>Object.keys\<close> order, and is a plain
  object: its prototype is \<open>Object.prototype\<close>. \<open>JFun f\<close> is the built-in function named
  \<open>f\<close>; the only functions the code can meet are the members of \<open>Object.prototype\<close>.
\<close>

datatype jsval =
    JUndefined
  | JNull
  | JBool bool
  | JNum int
  | JStr string
  | JObj "(string \<times> jsval) list"
  | JFun string

type_synonym jsobj = "(string \<times> jsval) list"

text \<open>The error classes of \<open>expressError\<close>, the \<open>TypeError\<close> of the language, and an error
  raised by the store inside \<open>db.query\<close>.\<close>

datatype error =
    BadRequestError string
  | NotFoundError string
  | UnauthorizedError string
  | TypeError
  | DbError

fun truthy :: "jsval \<Rightarrow> bool" where
  "truthy JUndefined = False"
| "truthy JNull = False"
| "truthy (JBool b) = b"
| "truthy (JNum n) = (n \<noteq> 0)"
| "truthy (JStr s) = (s \<noteq> [])"
| "truthy (JObj ps) = True"
| "truthy (JFun f) = True"

text \<open>\<open>a || b\<close>\<close>

definition js_or :: "jsval \<Rightarrow> jsval \<Rightarrow> jsval" where
  "js_or a b = (if truthy a then a else b)"

text \<open>Decimal digits of a natural number, as a template literal writes an index.\<close>

fun show_nat :: "nat \<Rightarrow> string" where
  "show_nat n =
     (if n < 10 then [''0123456789'' ! n]
      else show_nat (n div 10) @ [''0123456789'' ! (n mod 10)])"

declare show_nat.simps [simp del]

definition show_int :: "int \<Rightarrow> string" where
  "show_int i = (if i < 0 then ''-'' @ show_nat (nat (- i)) else show_nat (nat i))"

text \<open>String conversion of a value inside a template literal or a \<open>+\<close> with a string. An
  object is written as a plain object is, a built-in function as its source text.\<close>

fun ToString :: "jsval \<Rightarrow> string" where
  "ToString JUndefined = ''undefined''"
| "ToString JNull = ''null''"
| "ToString (JBool b) = (if b then ''true'' else ''false'')"
| "ToString (JNum n) = show_int n"
| "ToString (JStr s) = s"
| "ToString (JObj ps) = ''[object Object]''"
| "ToString (JFun f) = ''function '' @ f @ ''() { [native code] }''"

text \<open>\<open>xs.join(sep)\<close> on an array of strings.\<close>

fun join :: "string \<Rightarrow> string list \<Rightarrow> string" where
  "join sep [] = []"
| "join sep [x] = x"
| "join sep (x # y # ys) = x @ sep @ join sep (y # ys)"

text \<open>
  Reading an own property: \<open>undefined\<close> when the object has no such property of its own.
  This is \<open>o[k]\<close> for the names the models and the middleware read from rows, queries
  and identities (\<open>handle\<close>, \<open>title\<close>, \<open>isAdmin\<close>, ...), none of which is a member of
  \<open>Object.prototype\<close>.
\<close>

definition js_get :: "(string \<rightharpoonup> jsval) \<Rightarrow> string \<Rightarrow> jsval" where
  "js_get m k = (case m k of None \<Rightarrow> JUndefined | Some v \<Rightarrow> v)"

text \<open>
  The members every plain object inherits from \<open>Object.prototype\<close>: the built-in
  functions, \<open>constructor\<close> being the function \<open>Object\<close>, and the accessor \<open>__proto__\<close>,
  whose value is \<open>Object.prototype\<close> itself, an object without enumerable properties.
\<close>

definition Object_prototype :: "string \<rightharpoonup> jsval" where
  "Object_prototype =
     map_of
       [(''constructor'', JFun ''Object''),
        (''__defineGetter__'', JFun ''__defineGetter__''),
        (''__defineSetter__'', JFun ''__defineSetter__''),
        (''hasOwnProperty'', JFun ''hasOwnProperty''),
        (''__lookupGetter__'', JFun ''__lookupGetter__''),
        (''__lookupSetter__'', JFun ''__lookupSetter__''),
        (''isPrototypeOf'', JFun ''isPrototypeOf''),
        (''propertyIsEnumerable'', JFun ''propertyIsEnumerable''),
        (''toString'', JFun ''toString''),
        (''valueOf'', JFun ''valueOf''),
        (''__proto__'', JObj []),
        (''toLocaleString'', JFun ''toLocaleString'')]"

text \<open>
  \<open>o[k]\<close> for an arbitrary key \<open>k\<close> of a plain object given by its own properties: the own
  property, else the member inherited from \<open>Object.prototype\<close>, else \<open>undefined\<close>.
\<close>

definition js_member :: "(string \<rightharpoonup> jsval) \<Rightarrow> string \<Rightarrow> jsval" where
  "js_member m k =
     (case m k of
        Some v \<Rightarrow> v
      | None \<Rightarrow> (case Object_prototype k of Some v \<Rightarrow> v | None \<Rightarrow> JUndefined))"

section \<open>helpers/sql.js\<close>

text \<open>The object the builder returns; \<open>values_of\<close> is its property \<open>values\<close>.\<close>

record sql_update =
  setCols :: string
  values_of :: "jsval list"

text \<open>The double quote character.\<close>

definition dq :: string where
  "dq = [CHR 0x22]"

text \<open>The column written for a key: \<open>jsToSql[colName] || colName\<close>, as the template
  literal converts it to text. The key is any key of the update, so the read follows
  the prototype of the mapping.\<close>

definition sql_col :: "(string \<rightharpoonup> jsval) \<Rightarrow> string \<Rightarrow> string" where
  "sql_col jsToSql colName = ToString (js_or (js_member jsToSql colName) (JStr colName))"

text \<open>The text of one assignment: the template literal of the \<open>keys.map\<close> callback.\<close>

definition col_assign :: "(string \<rightharpoonup> jsval) \<Rightarrow> string \<Rightarrow> nat \<Rightarrow> string" where
  "col_assign jsToSql colName idx =
     dq @ sql_col jsToSql colName @ dq @ ''=$'' @ show_nat (idx + 1)"

definition sqlForPartialUpdate :: "jsobj \<Rightarrow> (string \<rightharpoonup> jsval) \<Rightarrow> error + sql_update" where
  "sqlForPartialUpdate dataToUpdate jsToSql =
     (let keys = map fst dataToUpdate in
      if length keys = 0 then Inl (BadRequestError ''No data'')
      else
        let cols = map (\<lambda>(colName, idx). col_assign jsToSql colName idx)
                       (zip keys [0..<length keys])
        in Inr \<lparr>setCols = join '', '' cols, values_of = map snd dataToUpdate\<rparr>)"

section \<open>middleware/auth.js\<close>

text \<open>
  \<open>v.k\<close> for the property names the middleware reads (\<open>isAdmin\<close>, \<open>username\<close>): reading a
  property of \<open>undefined\<close> or \<open>null\<close> throws a \<open>TypeError\<close>; an object gives its own
  property or \<open>undefined\<close>; a boolean, a number and a string have neither name.
\<close>

fun get_prop :: "jsval \<Rightarrow> string \<Rightarrow> error + jsval" where
  "get_prop JUndefined k = Inl TypeError"
| "get_prop JNull k = Inl TypeError"
| "get_prop (JObj ps) k = Inr (js_get (map_of ps) k)"
| "get_prop v k = Inr JUndefined"

text \<open>
  The characters \<open>trim\<close> removes, among the 256 characters a header value is made of:
  tab, line feed, vertical tab, form feed, carriage return, space, no-break space.
\<close>

definition is_space :: "char \<Rightarrow> bool" where
  "is_space c = (c \<in> set [CHR 0x09, CHR 0x0A, CHR 0x0B, CHR 0x0C, CHR 0x0D, CHR 0x20, CHR 0xA0])"

definition trim :: "string \<Rightarrow> string" where
  "trim s = rev (dropWhile is_space (rev (dropWhile is_space s)))"

text \<open>\<open>authHeader.replace(/^[Bb]earer /, "")\<close>: the pattern is anchored at the start, its
  first letter is \<open>B\<close> or \<open>b\<close>, the rest is \<open>earer\<close> and one space.\<close>

definition strip_bearer :: "string \<Rightarrow> string" where
  "strip_bearer authHeader =
     (case authHeader of
        [] \<Rightarrow> authHeader
      | c # rest \<Rightarrow>
          if (c = CHR ''B'' \<or> c = CHR ''b'') \<and> take 6 rest = ''earer ''
          then drop 6 rest else authHeader)"

text \<open>
  \<open>authenticateJWT\<close>. \<open>verify\<close> stands for \<open>jwt.verify(_, SECRET_KEY)\<close>: \<open>None\<close> when it
  throws, the decoded payload otherwise. \<open>authorization\<close> is the header, \<open>None\<close> when the
  request has none; \<open>user\<close> is \<open>res.locals.user\<close> before the call. The result is
  \<open>res.locals.user\<close> after the call and the argument handed to \<open>next\<close> (\<open>None\<close> for
  \<open>next()\<close>).
\<close>

definition authenticateJWT ::
  "(string \<Rightarrow> jsval option) \<Rightarrow> string option \<Rightarrow> jsval \<Rightarrow> jsval \<times> error option" where
  "authenticateJWT verify authorization user =
     (case authorization of
        None \<Rightarrow> (user, None)
      | Some authHeader \<Rightarrow>
          if authHeader \<noteq> [] then
            (let token = trim (strip_bearer authHeader) in
             case verify token of
               Some payload \<Rightarrow> (payload, None)
             | None \<Rightarrow> (user, None))
          else (user, None))"

text \<open>The guards take \<open>res.locals.user\<close> (\<open>JUndefined\<close> when no identity is attached) and
  give the argument handed to \<open>next\<close>.\<close>

definition ensureLoggedIn :: "jsval \<Rightarrow> error option" where
  "ensureLoggedIn user =
     (if \<not> truthy user then Some (UnauthorizedError ''Not logged in'') else None)"

text \<open>\<open>!res.locals.user.isAdmin || !res.locals.user\<close>: the property is read first, and an
  exception thrown by the read is caught and handed to \<open>next\<close>.\<close>

definition ensureAdmin :: "jsval \<Rightarrow> error option" where
  "ensureAdmin user =
     (case get_prop user ''isAdmin'' of
        Inl err \<Rightarrow> Some err
      | Inr isAdmin \<Rightarrow>
          if \<not> truthy isAdmin \<or> \<not> truthy user
          then Some (UnauthorizedError ''Not an admin'') else None)"

text \<open>\<open>!(user && (user.isAdmin || user.username === req.params.username))\<close>, with the route's
  \<open>username\<close> parameter a string.\<close>

definition ensureValidUserOrAdmin :: "jsval \<Rightarrow> string \<Rightarrow> error option" where
  "ensureValidUserOrAdmin user username =
     (if \<not> truthy user then Some (UnauthorizedError ''Not a valid user or admin'')
      else
        (case get_prop user ''isAdmin'' of
           Inl err \<Rightarrow> Some err
         | Inr isAdmin \<Rightarrow>
             if truthy isAdmin then None
             else
               (case get_prop user ''username'' of
                  Inl err \<Rightarrow> Some err
                | Inr u \<Rightarrow>
                    if u = JStr username then None
                    else Some (UnauthorizedError ''Not a valid user or admin''))))"

text \<open>
  The specification's reading of the prefix: the word in any casing, then one space.
\<close>

definition spec_bearer_prefix :: "string \<Rightarrow> bool" where
  "spec_bearer_prefix p =
     list_all2 (\<lambda>c (l, u). c = l \<or> c = u) p
       [(CHR ''b'', CHR ''B''), (CHR ''e'', CHR ''E''), (CHR ''a'', CHR ''A''),
        (CHR ''r'', CHR ''R''), (CHR ''e'', CHR ''E''), (CHR ''r'', CHR ''R''),
        (CHR '' '', CHR '' '')]"

definition spec_strip_bearer :: "string \<Rightarrow> string" where
  "spec_strip_bearer authHeader =
     (if spec_bearer_prefix (take 7 authHeader) then drop 7 authHeader else authHeader)"

definition spec_authenticateJWT ::
  "(string \<Rightarrow> jsval option) \<Rightarrow> string option \<Rightarrow> jsval \<Rightarrow> jsval \<times> error option" where
  "spec_authenticateJWT verify authorization user =
     (case authorization of
        None \<Rightarrow> (user, None)
      | Some authHeader \<Rightarrow>
          (case verify (trim (spec_strip_bearer authHeader)) of
             Some payload \<Rightarrow> (payload, None)
           | None \<Rightarrow> (user, None)))"

section \<open>The store\<close>

text \<open>
  \<open>db.query\<close> runs a statement on a relational store. The store is modelled by its two
  tables, each a list of rows, a row being the object \<open>result.rows\<close> would hold for it
  (column name and value). Each statement of the models is given its relational
  meaning on these tables. The schema file is not part of the source, so the constraints
  are not modelled, and a bind value of a \<open>SELECT\<close>, \<open>INSERT\<close> or \<open>DELETE\<close> is taken as it
  is given, \<open>undefined\<close> as \<open>NULL\<close>. An \<open>UPDATE\<close> converts each value it assigns to the
  type of its column, and gives back the converted value: the model test of
  \<open>Job.update\<close> sends the equity 0.5 and reads the text \<open>0.5\<close>. What a column makes of a
  value is the schema's, so it is a parameter \<open>conv\<close> of the updates: \<open>conv t c v\<close> is the
  value column \<open>c\<close> of table \<open>t\<close> holds for the bind value \<open>v\<close>, and \<open>None\<close> when the store
  cannot read \<open>v\<close> as a value of the column, which is an error of the store. An
  assignment to a column the table does not have, or two assignments to one column,
  are errors of the store too.
\<close>

type_synonym row = jsobj

record db =
  companies :: "row list"
  jobs :: "row list"

definition company_cols :: "string list" where
  "company_cols = [''handle'', ''name'', ''description'', ''num_employees'', ''logo_url'']"

definition job_cols :: "string list" where
  "job_cols = [''id'', ''title'', ''salary'', ''equity'', ''company_handle'']"

text \<open>\<open>o[k]\<close> and \<open>k in o\<close> for an object given by its list of own properties.\<close>

definition obj_get :: "jsobj \<Rightarrow> string \<Rightarrow> jsval" where
  "obj_get obj k = js_get (map_of obj) k"

definition has_key :: "jsobj \<Rightarrow> string \<Rightarrow> bool" where
  "has_key obj k = (k \<in> set (map fst obj))"

text \<open>\<open>o.k = v\<close>: an existing property keeps its place, a new one comes last.\<close>

definition obj_set :: "jsobj \<Rightarrow> string \<Rightarrow> jsval \<Rightarrow> jsobj" where
  "obj_set obj k v =
     (if has_key obj k then map (\<lambda>(k', v'). if k' = k then (k', v) else (k', v')) obj
      else obj @ [(k, v)])"

text \<open>A bind value as the store receives it.\<close>

definition pg_param :: "jsval \<Rightarrow> jsval" where
  "pg_param v = (if v = JUndefined then JNull else v)"

text \<open>\<open>col = $i\<close>: never true of \<open>NULL\<close>.\<close>

definition sql_eq :: "jsval \<Rightarrow> jsval \<Rightarrow> bool" where
  "sql_eq a b = (a \<noteq> JNull \<and> b \<noteq> JNull \<and> a = b)"

text \<open>\<open>SELECT c1, c2, ...\<close> and \<open>RETURNING c1 AS a1, ...\<close> on one row.\<close>

definition project :: "string list \<Rightarrow> row \<Rightarrow> row" where
  "project cols r = map (\<lambda>c. (c, obj_get r c)) cols"

definition returning :: "(string \<times> string) list \<Rightarrow> row \<Rightarrow> row" where
  "returning cols r = map (\<lambda>(c, alias). (alias, obj_get r c)) cols"

text \<open>The values of an \<open>UPDATE\<close> as the columns hold them; \<open>None\<close> when the store cannot
  read one of them.\<close>

fun convert_all ::
  "(string \<Rightarrow> jsval \<Rightarrow> jsval option) \<Rightarrow> (string \<times> jsval) list \<Rightarrow>
     (string \<times> jsval) list option" where
  "convert_all conv [] = Some []"
| "convert_all conv ((c, v) # asg) =
     (case conv c (pg_param v) of
        None \<Rightarrow> None
      | Some v' \<Rightarrow>
          (case convert_all conv asg of
             None \<Rightarrow> None
           | Some asg' \<Rightarrow> Some ((c, v') # asg')))"

text \<open>\<open>SET c1 = $1, ...\<close> on one row, the values being those the columns hold.\<close>

definition set_cols :: "(string \<times> jsval) list \<Rightarrow> row \<Rightarrow> row" where
  "set_cols asg r =
     map (\<lambda>(c, v). (c, case map_of asg c of None \<Rightarrow> v | Some v' \<Rightarrow> v')) r"

text \<open>\<open>UPDATE t SET asg WHERE whr RETURNING ...\<close> on the rows of a table with columns
  \<open>cols\<close>, \<open>conv\<close> being the conversion of the table: the updated rows, and the table
  afterwards.\<close>

definition db_update ::
  "(string \<Rightarrow> jsval \<Rightarrow> jsval option) \<Rightarrow> string list \<Rightarrow> row list \<Rightarrow>
     (string \<times> jsval) list \<Rightarrow> (row \<Rightarrow> bool) \<Rightarrow> error + (row list \<times> row list)" where
  "db_update conv cols rows asg whr =
     (if list_ex (\<lambda>c. c \<notin> set cols) (map fst asg) \<or> \<not> distinct (map fst asg) then Inl DbError
      else
        (case convert_all conv asg of
           None \<Rightarrow> Inl DbError
         | Some asg' \<Rightarrow>
             Inr (map (set_cols asg') (filter whr rows),
                  map (\<lambda>r. if whr r then set_cols asg' r else r) rows)))"

text \<open>\<open>DELETE FROM t WHERE whr RETURNING ...\<close>: the deleted rows, and the table afterwards.\<close>

definition db_delete :: "row list \<Rightarrow> (row \<Rightarrow> bool) \<Rightarrow> row list \<times> row list" where
  "db_delete rows whr = (filter whr rows, filter (\<lambda>r. \<not> whr r) rows)"

text \<open>
  A filtering \<open>SELECT ... WHERE w ORDER BY c\<close>. How the store evaluates one condition
  (\<open>ILIKE\<close>, the comparisons and their conversions) and how it orders values are its own:
  \<open>holds\<close> says whether a condition, given by its text, is true of a row under the bind
  values, and \<open>rank\<close> is the position of a value in the store's order. When the array of
  conditions is empty the text after \<open>WHERE\<close> is \<open>undefined\<close>, a column neither table has,
  and the store raises an error.
\<close>

definition db_filter ::
  "(string \<Rightarrow> jsval list \<Rightarrow> row \<Rightarrow> bool) \<Rightarrow> (jsval \<Rightarrow> 'o::linorder) \<Rightarrow>
     string \<Rightarrow> row list \<Rightarrow> string list \<Rightarrow> jsval list \<Rightarrow> error + row list" where
  "db_filter holds rank orderCol rows filters vals =
     (if filters = [] then Inl DbError
      else Inr (sort_key (\<lambda>r. rank (obj_get r orderCol))
                  (filter (\<lambda>r. list_all (\<lambda>c. holds c (map pg_param vals) r) filters) rows)))"

text \<open>The line feed of a template literal that spans lines.\<close>

definition nl :: string where
  "nl = [CHR 0x0A]"

text \<open>\<open>filters.length > 1 ? filters.join(" AND ") : filters[0]\<close>\<close>

definition filtersQuery_of :: "string list \<Rightarrow> jsval" where
  "filtersQuery_of filters =
     (if length filters > 1 then JStr (join '' AND '' filters)
      else (case filters of [] \<Rightarrow> JUndefined | f # _ \<Rightarrow> JStr f))"

text \<open>What a filter has built when it calls \<open>db.query\<close>.\<close>

record filter_stmt =
  filters :: "string list"
  filtersValues :: "jsval list"
  filtersQuery :: jsval
  sqlQuery :: string

section \<open>models/company.js\<close>

definition table_of :: "db \<Rightarrow> string \<Rightarrow> (string list \<times> row list) option" where
  "table_of d tbl =
     (if tbl = ''companies'' then Some (company_cols, companies d)
      else if tbl = ''jobs'' then Some (job_cols, jobs d)
      else None)"

text \<open>\<open>selectQuery(from, where, fields)\<close>: all columns of the rows of table \<open>from\<close> whose
  column \<open>where[i]\<close> equals \<open>fields[i]\<close>, for every \<open>i\<close>.\<close>

definition selectQuery :: "db \<Rightarrow> string \<Rightarrow> string list \<Rightarrow> jsval list \<Rightarrow> error + row list" where
  "selectQuery d tbl whr vals =
     (case table_of d tbl of
        None \<Rightarrow> Inl DbError
      | Some (cols, rows) \<Rightarrow>
          if whr = [] \<or> length whr \<noteq> length vals \<or> list_ex (\<lambda>c. c \<notin> set cols) whr
          then Inl DbError
          else Inr (filter (\<lambda>r. list_all (\<lambda>(col, v). sql_eq (obj_get r col) (pg_param v))
                                   (zip whr vals)) rows))"

text \<open>The \<open>RETURNING\<close> list of the company statements.\<close>

definition company_returning :: "(string \<times> string) list" where
  "company_returning =
     [(''handle'', ''handle''), (''name'', ''name''), (''description'', ''description''),
      (''num_employees'', ''numEmployees''), (''logo_url'', ''logoUrl'')]"

text \<open>\<open>Company.create\<close>: the created record and the store afterwards. A call that fails
  leaves the store as it was.\<close>

definition Company_create ::
  "db \<Rightarrow> string \<Rightarrow> jsval \<Rightarrow> jsval \<Rightarrow> jsval \<Rightarrow> jsval \<Rightarrow> error + (row \<times> db)" where
  "Company_create d handle name description numEmployees logoUrl =
     (case selectQuery d ''companies'' [''handle''] [JStr handle] of
        Inl err \<Rightarrow> Inl err
      | Inr duplicateCheck \<Rightarrow>
          if duplicateCheck \<noteq> [] then Inl (BadRequestError (''Duplicate company: '' @ handle))
          else
            (let inserted = zip company_cols
                   (map pg_param [JStr handle, name, description, numEmployees, logoUrl]);
                 company = returning company_returning inserted
             in Inr (company, d\<lparr>companies := companies d @ [inserted]\<rparr>)))"

definition Company_validFilters :: "string list" where
  "Company_validFilters = [''name'', ''minEmployees'', ''maxEmployees'']"

text \<open>\<open>a > b\<close> on two numbers, \<open>None\<close> being \<open>NaN\<close>.\<close>

definition js_gt :: "'n::linorder option \<Rightarrow> 'n option \<Rightarrow> bool" where
  "js_gt a b = (case (a, b) of (Some x, Some y) \<Rightarrow> x > y | _ \<Rightarrow> False)"

text \<open>The conditions and bind values \<open>Company.filter\<close> collects.\<close>

definition Company_filter_clauses :: "jsobj \<Rightarrow> string list \<times> jsval list" where
  "Company_filter_clauses query =
     (let (filters, filtersValues) = ([], []);
          (filters, filtersValues) =
            (if has_key query ''name''
             then (filters @ [''name ILIKE $'' @ show_nat (length filters + 1)],
                   filtersValues @ [JStr (''%'' @ ToString (obj_get query ''name'') @ ''%'')])
             else (filters, filtersValues));
          (filters, filtersValues) =
            (if has_key query ''minEmployees''
             then (filters @ [''num_employees >= $'' @ show_nat (length filters + 1)],
                   filtersValues @ [obj_get query ''minEmployees''])
             else (filters, filtersValues));
          (filters, filtersValues) =
            (if has_key query ''maxEmployees''
             then (filters @ [''num_employees <= $'' @ show_nat (length filters + 1)],
                   filtersValues @ [obj_get query ''maxEmployees''])
             else (filters, filtersValues))
      in (filters, filtersValues))"

text \<open>
  \<open>Company.filter\<close> up to its call of \<open>db.query\<close>: the two checks, then the statement.
  \<open>Number\<close> is the conversion of the language to a number (\<open>None\<close> for \<open>NaN\<close>); the text
  keeps the line feeds and the indentation of the template literal.
\<close>

definition Company_filter_sql ::
  "(jsval \<Rightarrow> 'n::linorder option) \<Rightarrow> jsobj \<Rightarrow> error + filter_stmt" where
  "Company_filter_sql Number query =
     (if list_ex (\<lambda>key. key \<notin> set Company_validFilters) (map fst query)
      then Inl (BadRequestError ''Invalid filter'')
      else if has_key query ''minEmployees'' \<and> has_key query ''maxEmployees'' \<and>
              js_gt (Number (obj_get query ''minEmployees''))
                    (Number (obj_get query ''maxEmployees''))
      then Inl (BadRequestError ''minEmployees cannot be greater than maxEmployees'')
      else
        (let (fs, vs) = Company_filter_clauses query;
             fq = filtersQuery_of fs
         in Inr \<lparr>filters = fs, filtersValues = vs, filtersQuery = fq,
                 sqlQuery = nl @ ''        SELECT *'' @ nl @ ''        FROM companies'' @ nl @
                            ''        WHERE '' @ ToString fq @ nl @
                            ''        ORDER BY name'' @ nl @ ''      ''\<rparr>))"

definition Company_filter ::
  "(string \<Rightarrow> jsval list \<Rightarrow> row \<Rightarrow> bool) \<Rightarrow> (jsval \<Rightarrow> 'o::linorder) \<Rightarrow>
     (jsval \<Rightarrow> 'n::linorder option) \<Rightarrow> db \<Rightarrow> jsobj \<Rightarrow> error + row list" where
  "Company_filter holds rank Number d query =
     (case Company_filter_sql Number query of
        Inl err \<Rightarrow> Inl err
      | Inr st \<Rightarrow> db_filter holds rank ''name'' (companies d) (filters st) (filtersValues st))"

text \<open>The column mapping \<open>Company.update\<close> hands to the builder.\<close>

definition company_jsToSql :: "string \<rightharpoonup> jsval" where
  "company_jsToSql = [''numEmployees'' \<mapsto> JStr ''num_employees'', ''logoUrl'' \<mapsto> JStr ''logo_url'']"

text \<open>
  \<open>Company.update\<close>. The store reads the fragment \<open>"c1"=$1, "c2"=$2, ...\<close> as the
  assignment of the \<open>i\<close>-th bind value to column \<open>ci\<close>, and the last bind value as the
  handle of the \<open>WHERE\<close> clause; \<open>conv\<close> is the conversion of the store.
\<close>

definition Company_update ::
  "(string \<Rightarrow> string \<Rightarrow> jsval \<Rightarrow> jsval option) \<Rightarrow> db \<Rightarrow> string \<Rightarrow> jsobj \<Rightarrow>
     error + (row \<times> db)" where
  "Company_update conv d handle data =
     (case sqlForPartialUpdate data company_jsToSql of
        Inl err \<Rightarrow> Inl err
      | Inr su \<Rightarrow>
          (case db_update (conv ''companies'') company_cols (companies d)
                  (zip (map (sql_col company_jsToSql) (map fst data)) (values_of su))
                  (\<lambda>r. sql_eq (obj_get r ''handle'') (JStr handle)) of
             Inl err \<Rightarrow> Inl err
           | Inr (updated, rows') \<Rightarrow>
               (case map (returning company_returning) updated of
                  [] \<Rightarrow> Inl (NotFoundError (''No company: '' @ handle))
                | company # _ \<Rightarrow> Inr (company, d\<lparr>companies := rows'\<rparr>))))"

text \<open>\<open>Company.remove\<close> returns nothing: the result is the store afterwards.\<close>

definition Company_remove :: "db \<Rightarrow> string \<Rightarrow> error + db" where
  "Company_remove d handle =
     (case db_delete (companies d) (\<lambda>r. sql_eq (obj_get r ''handle'') (JStr handle)) of
        (deleted, rows') \<Rightarrow>
          (case map (project [''handle'']) deleted of
             [] \<Rightarrow> Inl (NotFoundError (''No company: '' @ handle))
           | company # _ \<Rightarrow> Inr (d\<lparr>companies := rows'\<rparr>)))"

section \<open>models/job.js\<close>

definition Job_validFilters :: "string list" where
  "Job_validFilters = [''title'', ''minSalary'', ''hasEquity'']"

text \<open>The conditions and bind values \<open>Job.filter\<close> collects.\<close>

definition Job_filter_clauses :: "jsobj \<Rightarrow> string list \<times> jsval list" where
  "Job_filter_clauses query =
     (let (filters, filtersValues) = ([], []);
          (filters, filtersValues) =
            (if has_key query ''title''
             then (filters @ [''title ILIKE $'' @ show_nat (length filters + 1)],
                   filtersValues @ [JStr (''%'' @ ToString (obj_get query ''title'') @ ''%'')])
             else (filters, filtersValues));
          (filters, filtersValues) =
            (if has_key query ''minSalary''
             then (filters @ [''salary >= $'' @ show_nat (length filters + 1)],
                   filtersValues @ [obj_get query ''minSalary''])
             else (filters, filtersValues));
          (filters, filtersValues) =
            (if has_key query ''hasEquity'' \<and> obj_get query ''hasEquity'' = JStr ''true''
             then (filters @ [''equity > $'' @ show_nat (length filters + 1)], filtersValues @ [JNum 0])
             else (filters, filtersValues))
      in (filters, filtersValues))"

text \<open>\<open>Job.filter\<close> up to its call of \<open>db.query\<close>.\<close>

definition Job_filter_sql :: "jsobj \<Rightarrow> error + filter_stmt" where
  "Job_filter_sql query =
     (if list_ex (\<lambda>key. key \<notin> set Job_validFilters) (map fst query)
      then Inl (BadRequestError ''Invalid filter'')
      else
        (let (fs, vs) = Job_filter_clauses query;
             fq = filtersQuery_of fs
         in Inr \<lparr>filters = fs, filtersValues = vs, filtersQuery = fq,
                 sqlQuery = ''SELECT id, title, salary, equity, company_handle'' @ nl @
                            ''      FROM jobs'' @ nl @
                            ''      WHERE '' @ ToString fq @ nl @
                            ''      ORDER BY company_handle''\<rparr>))"

definition Job_filter ::
  "(string \<Rightarrow> jsval list \<Rightarrow> row \<Rightarrow> bool) \<Rightarrow> (jsval \<Rightarrow> 'o::linorder) \<Rightarrow>
     db \<Rightarrow> jsobj \<Rightarrow> error + row list" where
  "Job_filter holds rank d query =
     (case Job_filter_sql query of
        Inl err \<Rightarrow> Inl err
      | Inr st \<Rightarrow>
          (case db_filter holds rank ''company_handle'' (jobs d) (filters st) (filtersValues st) of
             Inl err \<Rightarrow> Inl err
           | Inr rows \<Rightarrow> Inr (map (project job_cols) rows)))"

text \<open>\<open>Job.get\<close>: the first job of that title, its \<open>company_handle\<close> property overwritten
  with the first company of that handle (\<open>undefined\<close> when there is none).\<close>

definition Job_get :: "db \<Rightarrow> string \<Rightarrow> error + jsobj" where
  "Job_get d title =
     (case map (project job_cols)
             (filter (\<lambda>r. sql_eq (obj_get r ''title'') (JStr title)) (jobs d)) of
        [] \<Rightarrow> Inl (NotFoundError (''No job: '' @ title))
      | job # _ \<Rightarrow>
          (let company = map (project company_cols)
                 (filter (\<lambda>r. sql_eq (obj_get r ''handle'')
                                      (pg_param (obj_get job ''company_handle'')))
                         (companies d))
           in Inr (obj_set job ''company_handle''
                     (case company of [] \<Rightarrow> JUndefined | c # _ \<Rightarrow> JObj c))))"

text \<open>\<open>Job.update\<close>, with the job id an integer, the empty column mapping and the
  conversion of the store. Its \<open>NotFound\<close> message says \<open>company\<close>, as in the source.\<close>

definition Job_update ::
  "(string \<Rightarrow> string \<Rightarrow> jsval \<Rightarrow> jsval option) \<Rightarrow> db \<Rightarrow> int \<Rightarrow> jsobj \<Rightarrow>
     error + (row \<times> db)" where
  "Job_update conv d jid data =
     (case sqlForPartialUpdate data Map.empty of
        Inl err \<Rightarrow> Inl err
      | Inr su \<Rightarrow>
          (case db_update (conv ''jobs'') job_cols (jobs d)
                  (zip (map (sql_col Map.empty) (map fst data)) (values_of su))
                  (\<lambda>r. sql_eq (obj_get r ''id'') (JNum jid)) of
             Inl err \<Rightarrow> Inl err
           | Inr (updated, rows') \<Rightarrow>
               (case map (project job_cols) updated of
                  [] \<Rightarrow> Inl (NotFoundError (''No company: '' @ ToString (JNum jid)))
                | job # _ \<Rightarrow> Inr (job, d\<lparr>jobs := rows'\<rparr>))))"

definition Job_remove :: "db \<Rightarrow> int \<Rightarrow> error + db" where
  "Job_remove d jid =
     (case db_delete (jobs d) (\<lambda>r. sql_eq (obj_get r ''id'') (JNum jid)) of
        (deleted, rows') \<Rightarrow>
          (case map (project [''id'']) deleted of
             [] \<Rightarrow> Inl (NotFoundError (''No job: '' @ ToString (JNum jid)))
           | job # _ \<Rightarrow> Inr (d\<lparr>jobs := rows'\<rparr>)))"

section \<open>Notions used to state the properties\<close>

text \<open>The assignments an update writes: each key's column with the key's value.\<close>

definition assignments :: "(string \<rightharpoonup> jsval) \<Rightarrow> jsobj \<Rightarrow> (string \<times> jsval) list" where
  "assignments m data = map (\<lambda>(k, v). (sql_col m k, v)) data"

text \<open>An update the store can run on a table with columns \<open>cols\<close>: it is not empty, and
  its keys name distinct columns of the table.\<close>

definition updatable :: "string list \<Rightarrow> (string \<rightharpoonup> jsval) \<Rightarrow> jsobj \<Rightarrow> bool" where
  "updatable cols m data =
     (data \<noteq> [] \<and> distinct (map (sql_col m) (map fst data)) \<and>
      list_all (\<lambda>k. sql_col m k \<in> set cols) (map fst data))"

text \<open>A store with the first company and the first job of the model tests.\<close>

definition test_db :: db where
  "test_db =
     \<lparr>companies =
        [[(''handle'', JStr ''c1''), (''name'', JStr ''C1''), (''description'', JStr ''Desc1''),
          (''num_employees'', JNum 1), (''logo_url'', JStr ''http://c1.img'')]],
      jobs =
        [[(''id'', JNum 1), (''title'', JStr ''title1''), (''salary'', JNum 100),
          (''equity'', JStr ''0.0''), (''company_handle'', JStr ''c1'')]]\<rparr>"

text \<open>
  Modelled from the spec: the schema of the store is not part of the source. A
  conversion after the data model: \<open>NULL\<close> stays \<open>NULL\<close>; equity is held as decimal text,
  so that a number given for it comes back as its text; the integer columns hold
  integers and the other columns hold text, and refuse anything else.
\<close>

definition test_conv :: "string \<Rightarrow> string \<Rightarrow> jsval \<Rightarrow> jsval option" where
  "test_conv tbl col v =
     (if v = JNull then Some JNull
      else if col = ''equity'' then
        (case v of JNum n \<Rightarrow> Some (JStr (show_int n)) | JStr s \<Rightarrow> Some (JStr s) | _ \<Rightarrow> None)
      else if col \<in> set [''id'', ''salary'', ''num_employees''] then
        (case v of JNum n \<Rightarrow> Some (JNum n) | _ \<Rightarrow> None)
      else
        (case v of JStr s \<Rightarrow> Some (JStr s) | _ \<Rightarrow> None))"

text \<open>The conditions a job query has for \<open>title\<close> and \<open>minSalary\<close>, written out with their
  numbers, and their bind values.\<close>

definition job_other_conditions :: "jsobj \<Rightarrow> string list \<times> jsval list" where
  "job_other_conditions q =
     ((if has_key q ''title'' then [''title ILIKE $1''] else []) @
      (if has_key q ''minSalary''
       then [if has_key q ''title'' then ''salary >= $2'' else ''salary >= $1''] else []),
      (if has_key q ''title'' then [JStr (''%'' @ ToString (obj_get q ''title'') @ ''%'')] else []) @
      (if has_key q ''minSalary'' then [obj_get q ''minSalary''] else []))"

text \<open>The text of the job statement whose \<open>WHERE\<close> clause is \<open>w\<close>.\<close>

definition job_select :: "string \<Rightarrow> string" where
  "job_select w =
     ''SELECT id, title, salary, equity, company_handle'' @ nl @ ''      FROM jobs'' @ nl @
     ''      WHERE '' @ w @ nl @ ''      ORDER BY company_handle''"

text \<open>The jobs of the store of which every condition of \<open>fs\<close> is true under the bind
  values \<open>vs\<close>, in the order of their company handles, with the five columns.\<close>

definition job_rows ::
  "(string \<Rightarrow> jsval list \<Rightarrow> row \<Rightarrow> bool) \<Rightarrow> (jsval \<Rightarrow> 'o::linorder) \<Rightarrow> db \<Rightarrow>
     string list \<Rightarrow> jsval list \<Rightarrow> row list" where
  "job_rows holds rank d fs vs =
     map (project job_cols)
       (sort_key (\<lambda>r. rank (obj_get r ''company_handle''))
          (filter (\<lambda>r. \<forall>c \<in> set fs. holds c vs r) (jobs d)))"



section \<open>Properties of the partial-update builder\<close>

lemma zip_keys_index:
  "map (\<lambda>(c, i). f c i) (zip (map fst d) [0..<length d]) =
   map (\<lambda>i. f (fst (d ! i)) i) [0..<length d]"
  by (rule nth_equalityI) simp_all

lemma sqlForPartialUpdate_nonempty:
  "d \<noteq> [] \<Longrightarrow> sqlForPartialUpdate d m =
     Inr \<lparr>setCols = join '', '' (map (\<lambda>i. col_assign m (fst (d ! i)) i) [0..<length d]),
          values_of = map snd d\<rparr>"
  by (simp add: sqlForPartialUpdate_def Let_def zip_keys_index)




text \<open>A key that the mapping does not have and that names a member of \<open>Object.prototype\<close>
  is written as the text of that member.\<close>

lemma sql_col_inherited:
  "sql_col Map.empty ''constructor'' = ''function Object() { [native code] }'' \<and>
   sql_col Map.empty ''toString'' = ''function toString() { [native code] }'' \<and>
   sql_col Map.empty ''__proto__'' = ''[object Object]''"
  by (simp add: sql_col_def js_member_def js_or_def Object_prototype_def)





section \<open>Properties of the middleware\<close>

lemma strip_bearer_Bearer: "strip_bearer (''Bearer '' @ t) = t"
  by (simp add: strip_bearer_def)

lemma strip_bearer_bearer: "strip_bearer (''bearer '' @ t) = t"
  by (simp add: strip_bearer_def)

lemma strip_bearer_other:
  "take 7 h \<noteq> ''Bearer '' \<Longrightarrow> take 7 h \<noteq> ''bearer '' \<Longrightarrow> strip_bearer h = h"
  by (cases h) (auto simp: strip_bearer_def)

text \<open>
  C3, what the guard does. With no identity attached the read of \<open>isAdmin\<close> throws, and the
  guard hands that \<open>TypeError\<close> to \<open>next\<close>, not \<open>Unauthorized\<close>. With an attached identity
  (an object) it fails with \<open>Unauthorized\<close> exactly when the \<open>isAdmin\<close> property is falsy,
  and succeeds otherwise.
\<close>

theorem ensureAdmin_outcomes:
  "ensureAdmin JUndefined = Some TypeError \<and>
   ensureAdmin (JObj ps) =
     (if truthy (js_get (map_of ps) ''isAdmin'') then None
      else Some (UnauthorizedError ''Not an admin''))"
  by (simp add: ensureAdmin_def)

theorem ensureAdmin_outcomes_witness:
  "ensureAdmin JUndefined = Some TypeError \<and>
   ensureAdmin (JObj [(''username'', JStr ''u1''), (''isAdmin'', JBool False)]) =
     Some (UnauthorizedError ''Not an admin'') \<and>
   ensureAdmin (JObj [(''username'', JStr ''admin''), (''isAdmin'', JBool True)]) = None"
  using ensureAdmin_outcomes [of "[(''username'', JStr ''u1''), (''isAdmin'', JBool False)]"]
    ensureAdmin_outcomes [of "[(''username'', JStr ''admin''), (''isAdmin'', JBool True)]"]
  by (simp add: js_get_def)

text \<open>The sibling guards answer \<open>Unauthorized\<close> when no identity is attached.\<close>

lemma siblings_without_identity:
  "ensureLoggedIn JUndefined = Some (UnauthorizedError ''Not logged in'') \<and>
   ensureValidUserOrAdmin JUndefined u = Some (UnauthorizedError ''Not a valid user or admin'')"
  by (simp add: ensureLoggedIn_def ensureValidUserOrAdmin_def)

text \<open>
  C8 (as the code has it). The step always calls \<open>next()\<close> without an error. Without a
  header, or with an empty one, the identity is left as it was. With a non-empty header
  the token is the header without a leading \<open>Bearer\<close> or \<open>bearer\<close> and one space (no other
  casing is removed), trimmed; the payload becomes the identity when the token verifies,
  and the identity is left as it was when it does not.
\<close>

theorem authenticateJWT_never_fails:
  "snd (authenticateJWT verify hdr user) = None \<and>
   authenticateJWT verify None user = (user, None) \<and>
   authenticateJWT verify (Some []) user = (user, None) \<and>
   (h \<noteq> [] \<longrightarrow>
      authenticateJWT verify (Some h) user =
        (case verify (trim (strip_bearer h)) of
           Some payload \<Rightarrow> (payload, None)
         | None \<Rightarrow> (user, None))) \<and>
   strip_bearer (''Bearer '' @ t) = t \<and>
   strip_bearer (''bearer '' @ t) = t \<and>
   (take 7 h \<noteq> ''Bearer '' \<and> take 7 h \<noteq> ''bearer '' \<longrightarrow> strip_bearer h = h)"
proof -
  have "snd (authenticateJWT verify hdr user) = None"
    by (simp add: authenticateJWT_def Let_def split: option.splits)
  moreover have "authenticateJWT verify None user = (user, None)"
    by (simp add: authenticateJWT_def)
  moreover have "authenticateJWT verify (Some []) user = (user, None)"
    by (simp add: authenticateJWT_def)
  moreover have "h \<noteq> [] \<longrightarrow>
      authenticateJWT verify (Some h) user =
        (case verify (trim (strip_bearer h)) of
           Some payload \<Rightarrow> (payload, None)
         | None \<Rightarrow> (user, None))"
    by (simp add: authenticateJWT_def Let_def)
  ultimately show ?thesis
    using strip_bearer_Bearer strip_bearer_bearer strip_bearer_other by blast
qed

theorem authenticateJWT_never_fails_witness:
  "authenticateJWT
     (\<lambda>t. if t = ''tok'' then Some (JObj [(''username'', JStr ''u1''), (''isAdmin'', JBool False)])
          else None)
     (Some ''bearer tok '') JUndefined =
   (JObj [(''username'', JStr ''u1''), (''isAdmin'', JBool False)], None) \<and>
   authenticateJWT (\<lambda>t. None) (Some ''Bearer tok'') JUndefined = (JUndefined, None)"
  using authenticateJWT_never_fails
    [of "\<lambda>t. if t = ''tok'' then Some (JObj [(''username'', JStr ''u1''), (''isAdmin'', JBool False)])
              else None" _ JUndefined "''bearer tok ''" "''tok ''"]
    authenticateJWT_never_fails [of "\<lambda>t. None" _ JUndefined "''Bearer tok''" "''tok''"]
  by (simp add: trim_def is_space_def)

text \<open>
  C8 as the specification words it fails on a prefix in another casing: the header
  \<open>BEARER tok\<close>, whose token \<open>tok\<close> verifies, attaches no identity.
\<close>

theorem authenticateJWT_casing_counterexample:
  "authenticateJWT
     (\<lambda>t. if t = ''tok'' then Some (JObj [(''username'', JStr ''u1''), (''isAdmin'', JBool False)])
          else None)
     (Some ''BEARER tok'') JUndefined = (JUndefined, None) \<and>
   spec_authenticateJWT
     (\<lambda>t. if t = ''tok'' then Some (JObj [(''username'', JStr ''u1''), (''isAdmin'', JBool False)])
          else None)
     (Some ''BEARER tok'') JUndefined =
   (JObj [(''username'', JStr ''u1''), (''isAdmin'', JBool False)], None)"
  by (simp add: authenticateJWT_def spec_authenticateJWT_def strip_bearer_def
        spec_strip_bearer_def spec_bearer_prefix_def trim_def is_space_def)

section \<open>Properties of the models\<close>

lemma filter_find_None: "find P xs = None \<Longrightarrow> filter P xs = []"
  by (induction xs) (auto split: if_splits)

lemma filter_find_Some: "find P xs = Some x \<Longrightarrow> \<exists>ys. filter P xs = x # ys"
  by (induction xs) (auto split: if_splits)

lemma find_Some_holds: "find P xs = Some x \<Longrightarrow> P x"
  by (induction xs) (auto split: if_splits)

lemma sql_eq_JStr [simp]: "sql_eq a (JStr s) = (a = JStr s)"
  by (auto simp: sql_eq_def)

lemma sql_eq_JNum [simp]: "sql_eq a (JNum n) = (a = JNum n)"
  by (auto simp: sql_eq_def)

subsection \<open>Company.create\<close>

lemma selectQuery_handle:
  "selectQuery d ''companies'' [''handle''] [JStr h] =
     Inr (filter (\<lambda>r. obj_get r ''handle'' = JStr h) (companies d))"
  by (simp add: selectQuery_def table_of_def company_cols_def pg_param_def)

lemma Company_create_keys:
  "Company_create d h n de ne lu = Inr (c, d') \<Longrightarrow>
   map fst c = [''handle'', ''name'', ''description'', ''numEmployees'', ''logoUrl'']"
  by (auto simp: Company_create_def selectQuery_handle Let_def company_returning_def
        returning_def split: if_splits)

text \<open>
  C5. When a company of the store has the payload's handle, \<open>Company.create\<close> fails with
  \<open>BadRequest\<close> and the message \<open>Duplicate company\<close>, whatever the other fields are. When
  none has, it appends the row to the table and returns the record of the new row, with
  the keys \<open>handle\<close>, \<open>name\<close>, \<open>description\<close>, \<open>numEmployees\<close>, \<open>logoUrl\<close> and no other key.
\<close>

theorem Company_create_duplicate:
  "((\<exists>r \<in> set (companies d). obj_get r ''handle'' = JStr h) \<longrightarrow>
      Company_create d h n de ne lu = Inl (BadRequestError (''Duplicate company: '' @ h))) \<and>
   ((\<forall>r \<in> set (companies d). obj_get r ''handle'' \<noteq> JStr h) \<longrightarrow>
      Company_create d h n de ne lu =
        Inr ([(''handle'', JStr h), (''name'', pg_param n), (''description'', pg_param de),
              (''numEmployees'', pg_param ne), (''logoUrl'', pg_param lu)],
             d\<lparr>companies := companies d @
                [[(''handle'', JStr h), (''name'', pg_param n), (''description'', pg_param de),
                  (''num_employees'', pg_param ne), (''logo_url'', pg_param lu)]]\<rparr>)) \<and>
   (Company_create d h n de ne lu = Inr (c, d') \<longrightarrow>
      map fst c = [''handle'', ''name'', ''description'', ''numEmployees'', ''logoUrl''] \<and>
      \<not> has_key c ''jobs'')"
proof (intro conjI impI)
  assume "\<exists>r \<in> set (companies d). obj_get r ''handle'' = JStr h"
  then have "filter (\<lambda>r. obj_get r ''handle'' = JStr h) (companies d) \<noteq> []"
    by (simp add: filter_empty_conv)
  then show "Company_create d h n de ne lu = Inl (BadRequestError (''Duplicate company: '' @ h))"
    by (simp add: Company_create_def selectQuery_handle)
next
  assume "\<forall>r \<in> set (companies d). obj_get r ''handle'' \<noteq> JStr h"
  then have "filter (\<lambda>r. obj_get r ''handle'' = JStr h) (companies d) = []"
    by (simp add: filter_empty_conv)
  then show "Company_create d h n de ne lu =
        Inr ([(''handle'', JStr h), (''name'', pg_param n), (''description'', pg_param de),
              (''numEmployees'', pg_param ne), (''logoUrl'', pg_param lu)],
             d\<lparr>companies := companies d @
                [[(''handle'', JStr h), (''name'', pg_param n), (''description'', pg_param de),
                  (''num_employees'', pg_param ne), (''logo_url'', pg_param lu)]]\<rparr>)"
    by (simp add: Company_create_def selectQuery_handle Let_def company_cols_def
          company_returning_def returning_def obj_get_def js_get_def pg_param_def)
next
  assume "Company_create d h n de ne lu = Inr (c, d')"
  then show "map fst c = [''handle'', ''name'', ''description'', ''numEmployees'', ''logoUrl'']"
    by (rule Company_create_keys)
next
  assume "Company_create d h n de ne lu = Inr (c, d')"
  then show "\<not> has_key c ''jobs''"
    by (simp add: has_key_def Company_create_keys)
qed

theorem Company_create_duplicate_witness:
  "Company_create test_db ''c1'' (JStr ''Other'') (JStr ''Other description'') (JNum 50) JUndefined =
     Inl (BadRequestError ''Duplicate company: c1'') \<and>
   Company_create test_db ''new'' (JStr ''New'') (JStr ''New Description'') (JNum 1) JUndefined =
     Inr ([(''handle'', JStr ''new''), (''name'', JStr ''New''),
           (''description'', JStr ''New Description''), (''numEmployees'', JNum 1),
           (''logoUrl'', JNull)],
          test_db\<lparr>companies := companies test_db @
             [[(''handle'', JStr ''new''), (''name'', JStr ''New''),
               (''description'', JStr ''New Description''), (''num_employees'', JNum 1),
               (''logo_url'', JNull)]]\<rparr>)"
  using Company_create_duplicate [of test_db "''c1''" "JStr ''Other''"
      "JStr ''Other description''" "JNum 50" JUndefined "[]" test_db]
    Company_create_duplicate [of test_db "''new''" "JStr ''New''"
      "JStr ''New Description''" "JNum 1" JUndefined "[]" test_db]
  by (simp add: test_db_def obj_get_def js_get_def pg_param_def)

subsection \<open>Job.get\<close>

lemma Job_get_NotFound:
  "find (\<lambda>r. obj_get r ''title'' = JStr t) (jobs d) = None \<Longrightarrow>
   Job_get d t = Inl (NotFoundError (''No job: '' @ t))"
  by (simp add: Job_get_def filter_find_None)

lemma Job_get_found:
  assumes j: "find (\<lambda>r. obj_get r ''title'' = JStr t) (jobs d) = Some j"
    and ch: "obj_get j ''company_handle'' = JStr ch"
    and c: "find (\<lambda>r. obj_get r ''handle'' = JStr ch) (companies d) = Some c"
  shows "Job_get d t =
     Inr [(''id'', obj_get j ''id''), (''title'', JStr t), (''salary'', obj_get j ''salary''),
          (''equity'', obj_get j ''equity''),
          (''company_handle'',
             JObj [(''handle'', JStr ch), (''name'', obj_get c ''name''),
                   (''description'', obj_get c ''description''),
                   (''num_employees'', obj_get c ''num_employees''),
                   (''logo_url'', obj_get c ''logo_url'')])]"
proof -
  obtain js where js: "filter (\<lambda>r. obj_get r ''title'' = JStr t) (jobs d) = j # js"
    using filter_find_Some [OF j] by blast
  obtain cs where cs: "filter (\<lambda>r. obj_get r ''handle'' = JStr ch) (companies d) = c # cs"
    using filter_find_Some [OF c] by blast
  have jt: "obj_get j ''title'' = JStr t"
    using find_Some_holds [OF j] .
  have chd: "obj_get c ''handle'' = JStr ch"
    using find_Some_holds [OF c] .
  have pj: "obj_get (project job_cols j) ''company_handle'' = JStr ch"
    by (simp add: project_def job_cols_def obj_get_def [of "_ # _"] js_get_def ch)
  show ?thesis
    unfolding Job_get_def
    by (simp add: js pj pg_param_def cs Let_def)
       (simp add: project_def job_cols_def company_cols_def obj_set_def has_key_def jt chd)
qed

text \<open>A job whose company is not in the store comes back with \<open>undefined\<close> under
  \<open>company_handle\<close>; the foreign key of the data model rules such a store out.\<close>

lemma Job_get_without_company:
  assumes j: "find (\<lambda>r. obj_get r ''title'' = JStr t) (jobs d) = Some j"
    and ch: "obj_get j ''company_handle'' = JStr ch"
    and c: "find (\<lambda>r. obj_get r ''handle'' = JStr ch) (companies d) = None"
  shows "Job_get d t =
     Inr [(''id'', obj_get j ''id''), (''title'', JStr t), (''salary'', obj_get j ''salary''),
          (''equity'', obj_get j ''equity''), (''company_handle'', JUndefined)]"
proof -
  obtain js where js: "filter (\<lambda>r. obj_get r ''title'' = JStr t) (jobs d) = j # js"
    using filter_find_Some [OF j] by blast
  have jt: "obj_get j ''title'' = JStr t"
    using find_Some_holds [OF j] .
  have pj: "obj_get (project job_cols j) ''company_handle'' = JStr ch"
    by (simp add: project_def job_cols_def obj_get_def [of "_ # _"] js_get_def ch)
  show ?thesis
    unfolding Job_get_def
    by (simp add: js pj pg_param_def filter_find_None [OF c] Let_def)
       (simp add: project_def job_cols_def obj_set_def has_key_def jt)
qed

text \<open>
  C4. \<open>Job.get\<close> selects by the \<open>title\<close> column. When no job has the title it fails with
  \<open>NotFound\<close>. Otherwise it returns the first such job, and, the job's company being in
  the store, the value under the key \<open>company_handle\<close> is the record of that company
  (\<open>handle\<close>, \<open>name\<close>, \<open>description\<close>, \<open>num_employees\<close>, \<open>logo_url\<close>) in place of the handle.
\<close>

theorem Job_get_by_title:
  "(find (\<lambda>r. obj_get r ''title'' = JStr t) (jobs d) = None \<longrightarrow>
      Job_get d t = Inl (NotFoundError (''No job: '' @ t))) \<and>
   (find (\<lambda>r. obj_get r ''title'' = JStr t) (jobs d) = Some j \<and>
    obj_get j ''company_handle'' = JStr ch \<and>
    find (\<lambda>r. obj_get r ''handle'' = JStr ch) (companies d) = Some c \<longrightarrow>
      Job_get d t =
        Inr [(''id'', obj_get j ''id''), (''title'', JStr t), (''salary'', obj_get j ''salary''),
             (''equity'', obj_get j ''equity''),
             (''company_handle'',
                JObj [(''handle'', JStr ch), (''name'', obj_get c ''name''),
                      (''description'', obj_get c ''description''),
                      (''num_employees'', obj_get c ''num_employees''),
                      (''logo_url'', obj_get c ''logo_url'')])])"
  using Job_get_NotFound Job_get_found by blast

theorem Job_get_by_title_witness:
  "Job_get test_db ''nope'' = Inl (NotFoundError ''No job: nope'') \<and>
   Job_get test_db ''title1'' =
     Inr [(''id'', JNum 1), (''title'', JStr ''title1''), (''salary'', JNum 100),
          (''equity'', JStr ''0.0''),
          (''company_handle'',
             JObj [(''handle'', JStr ''c1''), (''name'', JStr ''C1''),
                   (''description'', JStr ''Desc1''), (''num_employees'', JNum 1),
                   (''logo_url'', JStr ''http://c1.img'')])]"
  using Job_get_by_title [of "''nope''" test_db "[]" "[]" "[]"]
    Job_get_by_title [of "''title1''" test_db "hd (jobs test_db)" "''c1''"
      "hd (companies test_db)"]
  by (simp add: test_db_def obj_get_def js_get_def)

subsection \<open>update and remove\<close>

lemma zip_assignments:
  "zip (map (sql_col m \<circ> fst) data) (map snd data) = assignments m data"
  by (induction data) (auto simp: assignments_def)

lemma fst_assignments: "map fst (assignments m data) = map (sql_col m) (map fst data)"
  by (simp add: assignments_def case_prod_unfold)

lemma convert_all_columns:
  "convert_all conv asg = Some asg' \<Longrightarrow> map fst asg' = map fst asg"
  by (induction conv asg arbitrary: asg' rule: convert_all.induct)
     (auto split: option.splits)

lemma convert_all_values:
  "convert_all conv asg = Some asg' \<Longrightarrow>
   list_all2 (\<lambda>(c, v) (c', v'). c' = c \<and> conv c (pg_param v) = Some v') asg asg'"
  by (induction conv asg arbitrary: asg' rule: convert_all.induct)
     (auto split: option.splits)

lemma set_cols_columns: "map fst (set_cols asg r) = map fst r"
  by (simp add: set_cols_def case_prod_unfold)

lemma map_of_map_values:
  "map_of (map (\<lambda>(c, v). (c, f c v)) r) c = map_option (f c) (map_of r c)"
  by (induction r) auto

lemma has_key_map_of: "has_key r c = (map_of r c \<noteq> None)"
  by (simp add: has_key_def map_of_eq_None_iff)

lemma set_cols_value:
  "obj_get (set_cols asg r) c =
     (if has_key r c then (case map_of asg c of None \<Rightarrow> obj_get r c | Some v' \<Rightarrow> v')
      else JUndefined)"
  by (cases "map_of r c")
     (simp_all add: set_cols_def obj_get_def js_get_def has_key_map_of map_of_map_values
        split: option.splits)

lemma db_update_updatable:
  "updatable cols m data \<Longrightarrow> convert_all conv (assignments m data) = Some asg \<Longrightarrow>
   db_update conv cols rows (assignments m data) whr =
     Inr (map (set_cols asg) (filter whr rows),
          map (\<lambda>r. if whr r then set_cols asg r else r) rows)"
  by (simp add: db_update_def updatable_def fst_assignments list_ex_iff list_all_iff)

lemma Company_update_empty: "Company_update conv d h [] = Inl (BadRequestError ''No data'')"
  by (simp add: Company_update_def sqlForPartialUpdate_def)

lemma Company_update_NotFound:
  assumes "updatable company_cols company_jsToSql data"
    and "convert_all (conv ''companies'') (assignments company_jsToSql data) = Some asg"
    and "find (\<lambda>r. obj_get r ''handle'' = JStr h) (companies d) = None"
  shows "Company_update conv d h data = Inl (NotFoundError (''No company: '' @ h))"
proof -
  have ne: "data \<noteq> []" using assms(1) by (simp add: updatable_def)
  show ?thesis
    unfolding Company_update_def
    by (simp add: sqlForPartialUpdate_nonempty [OF ne] zip_assignments
          db_update_updatable [OF assms(1) assms(2)] filter_find_None [OF assms(3)])
qed

lemma Company_update_found:
  assumes "updatable company_cols company_jsToSql data"
    and "convert_all (conv ''companies'') (assignments company_jsToSql data) = Some asg"
    and "find (\<lambda>r. obj_get r ''handle'' = JStr h) (companies d) = Some r"
  shows "Company_update conv d h data =
     Inr (returning company_returning (set_cols asg r),
          d\<lparr>companies := map (\<lambda>x. if obj_get x ''handle'' = JStr h then set_cols asg x else x)
                              (companies d)\<rparr>)"
proof -
  have ne: "data \<noteq> []" using assms(1) by (simp add: updatable_def)
  obtain rs where rs: "filter (\<lambda>r. obj_get r ''handle'' = JStr h) (companies d) = r # rs"
    using filter_find_Some [OF assms(3)] by blast
  show ?thesis
    unfolding Company_update_def
    by (simp add: sqlForPartialUpdate_nonempty [OF ne] zip_assignments
          db_update_updatable [OF assms(1) assms(2)] rs)
qed

lemma Company_remove_NotFound:
  "find (\<lambda>r. obj_get r ''handle'' = JStr h) (companies d) = None \<Longrightarrow>
   Company_remove d h = Inl (NotFoundError (''No company: '' @ h))"
  by (simp add: Company_remove_def db_delete_def filter_find_None)

lemma Company_remove_found:
  assumes "find (\<lambda>r. obj_get r ''handle'' = JStr h) (companies d) = Some r"
  shows "Company_remove d h =
     Inr (d\<lparr>companies := filter (\<lambda>x. obj_get x ''handle'' \<noteq> JStr h) (companies d)\<rparr>)"
proof -
  obtain rs where rs: "filter (\<lambda>r. obj_get r ''handle'' = JStr h) (companies d) = r # rs"
    using filter_find_Some [OF assms] by blast
  show ?thesis by (simp add: Company_remove_def db_delete_def rs)
qed

lemma Job_update_empty: "Job_update conv d i [] = Inl (BadRequestError ''No data'')"
  by (simp add: Job_update_def sqlForPartialUpdate_def)

lemma Job_update_NotFound:
  assumes "updatable job_cols Map.empty data"
    and "convert_all (conv ''jobs'') (assignments Map.empty data) = Some asg"
    and "find (\<lambda>r. obj_get r ''id'' = JNum i) (jobs d) = None"
  shows "Job_update conv d i data = Inl (NotFoundError (''No company: '' @ show_int i))"
proof -
  have ne: "data \<noteq> []" using assms(1) by (simp add: updatable_def)
  show ?thesis
    unfolding Job_update_def
    by (simp add: sqlForPartialUpdate_nonempty [OF ne] zip_assignments
          db_update_updatable [OF assms(1) assms(2)] filter_find_None [OF assms(3)])
qed

lemma Job_update_found:
  assumes "updatable job_cols Map.empty data"
    and "convert_all (conv ''jobs'') (assignments Map.empty data) = Some asg"
    and "find (\<lambda>r. obj_get r ''id'' = JNum i) (jobs d) = Some r"
  shows "Job_update conv d i data =
     Inr (project job_cols (set_cols asg r),
          d\<lparr>jobs := map (\<lambda>x. if obj_get x ''id'' = JNum i then set_cols asg x else x)
                         (jobs d)\<rparr>)"
proof -
  have ne: "data \<noteq> []" using assms(1) by (simp add: updatable_def)
  obtain rs where rs: "filter (\<lambda>r. obj_get r ''id'' = JNum i) (jobs d) = r # rs"
    using filter_find_Some [OF assms(3)] by blast
  show ?thesis
    unfolding Job_update_def
    by (simp add: sqlForPartialUpdate_nonempty [OF ne] zip_assignments
          db_update_updatable [OF assms(1) assms(2)] rs)
qed

lemma Job_remove_NotFound:
  "find (\<lambda>r. obj_get r ''id'' = JNum i) (jobs d) = None \<Longrightarrow>
   Job_remove d i = Inl (NotFoundError (''No job: '' @ show_int i))"
  by (simp add: Job_remove_def db_delete_def filter_find_None)

lemma Job_remove_found:
  assumes "find (\<lambda>r. obj_get r ''id'' = JNum i) (jobs d) = Some r"
  shows "Job_remove d i =
     Inr (d\<lparr>jobs := filter (\<lambda>x. obj_get x ''id'' \<noteq> JNum i) (jobs d)\<rparr>)"
proof -
  obtain rs where rs: "filter (\<lambda>r. obj_get r ''id'' = JNum i) (jobs d) = r # rs"
    using filter_find_Some [OF assms] by blast
  show ?thesis by (simp add: Job_remove_def db_delete_def rs)
qed

text \<open>
  C7 (as the code has it). An update with no field fails with \<open>BadRequest\<close>, whether or not
  the row exists: the builder runs before the statement. Take an update that is not
  empty, names distinct columns of the table, and whose values the store can read, the
  columns holding them as \<open>asg\<close> and \<open>jasg\<close> say (each value is the conversion of the value
  sent; setting columns keeps the columns of a row and changes the named ones only). It
  fails with \<open>NotFound\<close> when no row has the handle or id, and otherwise returns
  the record of the first such row with the named columns set to the values the columns
  hold, every such row being so changed in the store. \<open>remove\<close> fails with \<open>NotFound\<close> when
  no row has the handle or id, and otherwise returns nothing and leaves the store
  without the rows of that handle or id.
\<close>

theorem update_remove_NotFound:
  "Company_update conv d h [] = Inl (BadRequestError ''No data'') \<and>
   Job_update conv d i [] = Inl (BadRequestError ''No data'') \<and>
   map fst (set_cols a x) = map fst x \<and>
   obj_get (set_cols a x) c =
     (if has_key x c then (case map_of a c of None \<Rightarrow> obj_get x c | Some v' \<Rightarrow> v')
      else JUndefined) \<and>
   (convert_all (conv ''companies'') (assignments company_jsToSql data) = Some asg \<longrightarrow>
      list_all2 (\<lambda>(c, v) (c', v'). c' = c \<and> conv ''companies'' c (pg_param v) = Some v')
        (assignments company_jsToSql data) asg) \<and>
   (convert_all (conv ''jobs'') (assignments Map.empty jdata) = Some jasg \<longrightarrow>
      list_all2 (\<lambda>(c, v) (c', v'). c' = c \<and> conv ''jobs'' c (pg_param v) = Some v')
        (assignments Map.empty jdata) jasg) \<and>
   (updatable company_cols company_jsToSql data \<and>
    convert_all (conv ''companies'') (assignments company_jsToSql data) = Some asg \<and>
    find (\<lambda>r. obj_get r ''handle'' = JStr h) (companies d) = None \<longrightarrow>
      Company_update conv d h data = Inl (NotFoundError (''No company: '' @ h))) \<and>
   (updatable company_cols company_jsToSql data \<and>
    convert_all (conv ''companies'') (assignments company_jsToSql data) = Some asg \<and>
    find (\<lambda>r. obj_get r ''handle'' = JStr h) (companies d) = Some r \<longrightarrow>
      Company_update conv d h data =
        Inr (returning company_returning (set_cols asg r),
             d\<lparr>companies := map (\<lambda>x. if obj_get x ''handle'' = JStr h then set_cols asg x else x)
                                 (companies d)\<rparr>)) \<and>
   (find (\<lambda>r. obj_get r ''handle'' = JStr h) (companies d) = None \<longrightarrow>
      Company_remove d h = Inl (NotFoundError (''No company: '' @ h))) \<and>
   (find (\<lambda>r. obj_get r ''handle'' = JStr h) (companies d) = Some r \<longrightarrow>
      Company_remove d h =
        Inr (d\<lparr>companies := filter (\<lambda>x. obj_get x ''handle'' \<noteq> JStr h) (companies d)\<rparr>)) \<and>
   (updatable job_cols Map.empty jdata \<and>
    convert_all (conv ''jobs'') (assignments Map.empty jdata) = Some jasg \<and>
    find (\<lambda>r. obj_get r ''id'' = JNum i) (jobs d) = None \<longrightarrow>
      Job_update conv d i jdata = Inl (NotFoundError (''No company: '' @ show_int i))) \<and>
   (updatable job_cols Map.empty jdata \<and>
    convert_all (conv ''jobs'') (assignments Map.empty jdata) = Some jasg \<and>
    find (\<lambda>r. obj_get r ''id'' = JNum i) (jobs d) = Some jr \<longrightarrow>
      Job_update conv d i jdata =
        Inr (project job_cols (set_cols jasg jr),
             d\<lparr>jobs := map (\<lambda>x. if obj_get x ''id'' = JNum i then set_cols jasg x else x)
                            (jobs d)\<rparr>)) \<and>
   (find (\<lambda>r. obj_get r ''id'' = JNum i) (jobs d) = None \<longrightarrow>
      Job_remove d i = Inl (NotFoundError (''No job: '' @ show_int i))) \<and>
   (find (\<lambda>r. obj_get r ''id'' = JNum i) (jobs d) = Some jr \<longrightarrow>
      Job_remove d i = Inr (d\<lparr>jobs := filter (\<lambda>x. obj_get x ''id'' \<noteq> JNum i) (jobs d)\<rparr>))"
  by (simp add: Company_update_empty Job_update_empty convert_all_values
        set_cols_columns set_cols_value
        Company_update_NotFound [where asg = asg]
        Company_update_found [where r = r and asg = asg] Company_remove_NotFound
        Company_remove_found [where r = r] Job_update_NotFound [where asg = jasg]
        Job_update_found [where r = jr and asg = jasg] Job_remove_NotFound
        Job_remove_found [where r = jr])

text \<open>The updates of the model tests, on a store that holds equity as text: the equity
  sent as a number comes back as its text.\<close>

theorem update_remove_NotFound_witness:
  "Company_update test_conv test_db ''nope'' [(''name'', JStr ''New'')] =
     Inl (NotFoundError ''No company: nope'') \<and>
   Company_update test_conv test_db ''c1'' [(''name'', JStr ''New''), (''numEmployees'', JNum 10)] =
     Inr ([(''handle'', JStr ''c1''), (''name'', JStr ''New''), (''description'', JStr ''Desc1''),
           (''numEmployees'', JNum 10), (''logoUrl'', JStr ''http://c1.img'')],
          test_db\<lparr>companies :=
            [[(''handle'', JStr ''c1''), (''name'', JStr ''New''), (''description'', JStr ''Desc1''),
              (''num_employees'', JNum 10), (''logo_url'', JStr ''http://c1.img'')]]\<rparr>) \<and>
   Company_remove test_db ''nope'' = Inl (NotFoundError ''No company: nope'') \<and>
   Company_remove test_db ''c1'' = Inr (test_db\<lparr>companies := []\<rparr>) \<and>
   Job_update test_conv test_db 100000 [(''title'', JStr ''newTitle'')] =
     Inl (NotFoundError ''No company: 100000'') \<and>
   Job_update test_conv test_db 1
       [(''title'', JStr ''newTitle''), (''salary'', JNum 900), (''equity'', JNum 1)] =
     Inr ([(''id'', JNum 1), (''title'', JStr ''newTitle''), (''salary'', JNum 900),
           (''equity'', JStr ''1''), (''company_handle'', JStr ''c1'')],
          test_db\<lparr>jobs :=
            [[(''id'', JNum 1), (''title'', JStr ''newTitle''), (''salary'', JNum 900),
              (''equity'', JStr ''1''), (''company_handle'', JStr ''c1'')]]\<rparr>) \<and>
   Job_remove test_db 100000 = Inl (NotFoundError ''No job: 100000'') \<and>
   Job_remove test_db 1 = Inr (test_db\<lparr>jobs := []\<rparr>)"
  using update_remove_NotFound [where conv = test_conv and d = test_db and h = "''nope''"
      and i = 100000 and data = "[(''name'', JStr ''New'')]"
      and asg = "[(''name'', JStr ''New'')]"
      and jdata = "[(''title'', JStr ''newTitle'')]"
      and jasg = "[(''title'', JStr ''newTitle'')]" and r = "[]" and jr = "[]"
      and a = "[]" and x = "[]" and c = "[]"]
    update_remove_NotFound [where conv = test_conv and d = test_db and h = "''c1''"
      and i = 1 and data = "[(''name'', JStr ''New''), (''numEmployees'', JNum 10)]"
      and asg = "[(''name'', JStr ''New''), (''num_employees'', JNum 10)]"
      and jdata = "[(''title'', JStr ''newTitle''), (''salary'', JNum 900), (''equity'', JNum 1)]"
      and jasg = "[(''title'', JStr ''newTitle''), (''salary'', JNum 900), (''equity'', JStr ''1'')]"
      and r = "hd (companies test_db)" and jr = "hd (jobs test_db)"
      and a = "[]" and x = "[]" and c = "[]"]
  by (simp add: test_db_def test_conv_def obj_get_def js_get_def updatable_def sql_col_def
        js_or_def js_member_def Object_prototype_def company_jsToSql_def company_cols_def
        job_cols_def assignments_def set_cols_def pg_param_def returning_def
        company_returning_def project_def show_int_def show_nat.simps)

text \<open>
  C7 as the specification words it fails for an update with no field: on a store with no
  company \<open>nope\<close> and no job \<open>100000\<close> the two updates fail with \<open>BadRequest\<close>, not
  \<open>NotFound\<close>.
\<close>

theorem update_empty_counterexample:
  "find (\<lambda>r. obj_get r ''handle'' = JStr ''nope'') (companies test_db) = None \<and>
   Company_update test_conv test_db ''nope'' [] = Inl (BadRequestError ''No data'') \<and>
   Company_update test_conv test_db ''nope'' [] \<noteq> Inl (NotFoundError ''No company: nope'') \<and>
   find (\<lambda>r. obj_get r ''id'' = JNum 100000) (jobs test_db) = None \<and>
   Job_update test_conv test_db 100000 [] = Inl (BadRequestError ''No data'') \<and>
   Job_update test_conv test_db 100000 [] \<noteq> Inl (NotFoundError ''No company: 100000'')"
  by (simp add: Company_update_def Job_update_def sqlForPartialUpdate_def test_db_def
        obj_get_def js_get_def)

section \<open>Properties of the filters\<close>

lemma obj_get_has_key: "obj_get q k = JStr s \<Longrightarrow> has_key q k"
  by (auto simp: obj_get_def js_get_def has_key_def split: option.splits dest: map_of_SomeD
      intro: rev_image_eqI)

lemma has_key_remove:
  "k \<noteq> k' \<Longrightarrow> has_key (filter (\<lambda>(a, b). a \<noteq> k') q) k = has_key q k"
  by (induction q) (auto simp: has_key_def)

lemma has_key_removed: "\<not> has_key (filter (\<lambda>(a, b). a \<noteq> k') q) k'"
  by (induction q) (auto simp: has_key_def)

lemma obj_get_remove:
  "k \<noteq> k' \<Longrightarrow> obj_get (filter (\<lambda>(a, b). a \<noteq> k') q) k = obj_get q k"
  by (induction q) (auto simp: obj_get_def js_get_def)

lemma Job_clauses_remove:
  "obj_get q ''hasEquity'' \<noteq> JStr ''true'' \<Longrightarrow>
   Job_filter_clauses (filter (\<lambda>(k, v). k \<noteq> ''hasEquity'') q) = Job_filter_clauses q"
  by (simp add: Job_filter_clauses_def has_key_remove obj_get_remove has_key_removed)

lemma Job_valid_remove:
  "list_ex (\<lambda>key. key \<notin> set Job_validFilters)
     (map fst (filter (\<lambda>(k, v). k \<noteq> ''hasEquity'') q)) =
   list_ex (\<lambda>key. key \<notin> set Job_validFilters) (map fst q)"
  by (induction q) (auto simp: Job_validFilters_def)

lemma Job_filter_sql_remove:
  "obj_get q ''hasEquity'' \<noteq> JStr ''true'' \<Longrightarrow>
   Job_filter_sql (filter (\<lambda>(k, v). k \<noteq> ''hasEquity'') q) = Job_filter_sql q"
  by (simp add: Job_filter_sql_def Job_clauses_remove Job_valid_remove)

lemma Job_filter_remove:
  "obj_get q ''hasEquity'' \<noteq> JStr ''true'' \<Longrightarrow>
   Job_filter holds rank d (filter (\<lambda>(k, v). k \<noteq> ''hasEquity'') q) = Job_filter holds rank d q"
  by (simp add: Job_filter_def Job_filter_sql_remove)

lemma filtersQuery_of_nonempty:
  "fs \<noteq> [] \<Longrightarrow> filtersQuery_of fs = JStr (join '' AND '' fs)"
  by (cases fs; cases "tl fs") (auto simp: filtersQuery_of_def)

lemma Job_clauses_other:
  "Job_filter_clauses q =
     (if obj_get q ''hasEquity'' = JStr ''true''
      then (fst (job_other_conditions q) @
              [''equity > $'' @ show_nat (length (fst (job_other_conditions q)) + 1)],
            snd (job_other_conditions q) @ [JNum 0])
      else job_other_conditions q)"
  using obj_get_has_key [of q "''hasEquity''" "''true''"]
  by (auto simp: Job_filter_clauses_def job_other_conditions_def show_nat.simps)

lemma other_no_equity:
  "c \<in> set (fst (job_other_conditions q)) \<Longrightarrow> c \<noteq> ''equity > $'' @ s"
  by (auto simp: job_other_conditions_def split: if_splits)

lemma Job_valid:
  "(\<forall>k. has_key q k \<longrightarrow> k \<in> {''title'', ''minSalary'', ''hasEquity''}) \<Longrightarrow>
   \<not> list_ex (\<lambda>key. key \<notin> set Job_validFilters) (map fst q)"
  by (auto simp: list_ex_iff has_key_def Job_validFilters_def)

lemma Job_filter_sql_valid:
  assumes "\<forall>k. has_key q k \<longrightarrow> k \<in> {''title'', ''minSalary'', ''hasEquity''}"
  shows "Job_filter_sql q =
     Inr \<lparr>filters = fst (Job_filter_clauses q), filtersValues = snd (Job_filter_clauses q),
          filtersQuery = filtersQuery_of (fst (Job_filter_clauses q)),
          sqlQuery = job_select (ToString (filtersQuery_of (fst (Job_filter_clauses q))))\<rparr>"
  using Job_valid [OF assms]
  by (simp add: Job_filter_sql_def Let_def case_prod_unfold job_select_def)

lemma Job_filter_valid:
  assumes "\<forall>k. has_key q k \<longrightarrow> k \<in> {''title'', ''minSalary'', ''hasEquity''}"
  shows "Job_filter holds rank d q =
     (if fst (Job_filter_clauses q) = [] then Inl DbError
      else Inr (job_rows holds rank d (fst (Job_filter_clauses q))
                  (map pg_param (snd (Job_filter_clauses q)))))"
  by (simp add: Job_filter_def Job_filter_sql_valid [OF assms] db_filter_def job_rows_def
        list_all_iff)

text \<open>
  C2. Take a job query with recognised keys only, \<open>pre\<close> and \<open>prevals\<close> being its
  conditions for \<open>title\<close> and \<open>minSalary\<close> and their bind values; none of them is an equity
  condition. When \<open>hasEquity\<close> is the string \<open>true\<close>, the statement \<open>Job.filter\<close> issues has
  one more condition, \<open>equity > $n\<close> with the next number \<open>n\<close> and the bind value 0, joined
  to the others with \<open>AND\<close> in the text of the \<open>WHERE\<close> clause, and the result is the jobs
  of which every condition, this one included, is true. With any other value of
  \<open>hasEquity\<close> the statement has the conditions \<open>pre\<close> alone and the result is the jobs of
  which these are true (the error of the store when there is none): what the query
  without the key gives.
\<close>

theorem Job_filter_hasEquity:
  assumes v: "\<forall>k. has_key q k \<longrightarrow> k \<in> {''title'', ''minSalary'', ''hasEquity''}"
    and o: "job_other_conditions q = (pre, prevals)"
  shows "(obj_get q ''hasEquity'' = JStr ''true'' \<longrightarrow>
      Job_filter_sql q =
        Inr \<lparr>filters = pre @ [''equity > $'' @ show_nat (length pre + 1)],
             filtersValues = prevals @ [JNum 0],
             filtersQuery =
               JStr (join '' AND '' (pre @ [''equity > $'' @ show_nat (length pre + 1)])),
             sqlQuery =
               job_select (join '' AND '' (pre @ [''equity > $'' @ show_nat (length pre + 1)]))\<rparr> \<and>
      Job_filter holds rank d q =
        Inr (job_rows holds rank d (pre @ [''equity > $'' @ show_nat (length pre + 1)])
               (map pg_param prevals @ [JNum 0]))) \<and>
   (obj_get q ''hasEquity'' \<noteq> JStr ''true'' \<longrightarrow>
      Job_filter_sql q =
        Inr \<lparr>filters = pre, filtersValues = prevals,
             filtersQuery = (if pre = [] then JUndefined else JStr (join '' AND '' pre)),
             sqlQuery = job_select (if pre = [] then ''undefined'' else join '' AND '' pre)\<rparr> \<and>
      Job_filter holds rank d q =
        (if pre = [] then Inl DbError
         else Inr (job_rows holds rank d pre (map pg_param prevals))) \<and>
      Job_filter_sql (filter (\<lambda>(k, v). k \<noteq> ''hasEquity'') q) = Job_filter_sql q \<and>
      Job_filter holds rank d (filter (\<lambda>(k, v). k \<noteq> ''hasEquity'') q) =
        Job_filter holds rank d q) \<and>
   (\<forall>c \<in> set pre. \<forall>n. c \<noteq> ''equity > $'' @ show_nat n)"
proof (intro conjI impI)
  assume t: "obj_get q ''hasEquity'' = JStr ''true''"
  have c: "Job_filter_clauses q =
      (pre @ [''equity > $'' @ show_nat (length pre + 1)], prevals @ [JNum 0])"
    using t o by (simp add: Job_clauses_other)
  show "Job_filter_sql q =
        Inr \<lparr>filters = pre @ [''equity > $'' @ show_nat (length pre + 1)],
             filtersValues = prevals @ [JNum 0],
             filtersQuery =
               JStr (join '' AND '' (pre @ [''equity > $'' @ show_nat (length pre + 1)])),
             sqlQuery =
               job_select (join '' AND '' (pre @ [''equity > $'' @ show_nat (length pre + 1)]))\<rparr>"
    by (simp add: Job_filter_sql_valid [OF v] c filtersQuery_of_nonempty)
  show "Job_filter holds rank d q =
        Inr (job_rows holds rank d (pre @ [''equity > $'' @ show_nat (length pre + 1)])
               (map pg_param prevals @ [JNum 0]))"
    by (simp add: Job_filter_valid [OF v] c pg_param_def)
next
  assume f: "obj_get q ''hasEquity'' \<noteq> JStr ''true''"
  have c: "Job_filter_clauses q = (pre, prevals)"
    using f o by (simp add: Job_clauses_other)
  show "Job_filter_sql q =
        Inr \<lparr>filters = pre, filtersValues = prevals,
             filtersQuery = (if pre = [] then JUndefined else JStr (join '' AND '' pre)),
             sqlQuery = job_select (if pre = [] then ''undefined'' else join '' AND '' pre)\<rparr>"
    by (simp add: Job_filter_sql_valid [OF v] c filtersQuery_of_nonempty)
       (simp add: filtersQuery_of_def)
  show "Job_filter holds rank d q =
        (if pre = [] then Inl DbError
         else Inr (job_rows holds rank d pre (map pg_param prevals)))"
    by (simp add: Job_filter_valid [OF v] c)
  show "Job_filter_sql (filter (\<lambda>(k, v). k \<noteq> ''hasEquity'') q) = Job_filter_sql q"
    by (rule Job_filter_sql_remove [OF f])
  show "Job_filter holds rank d (filter (\<lambda>(k, v). k \<noteq> ''hasEquity'') q) =
        Job_filter holds rank d q"
    by (rule Job_filter_remove [OF f])
next
  show "\<forall>c \<in> set pre. \<forall>n. c \<noteq> ''equity > $'' @ show_nat n"
    using other_no_equity [of _ q] o by simp
qed

text \<open>On the store of the tests, with a store that finds the equity condition false of
  the equity \<open>0.0\<close>: the job is left out when \<open>hasEquity\<close> is \<open>true\<close>, and returned when it
  is \<open>false\<close>.\<close>

theorem Job_filter_hasEquity_witness:
  "Job_filter_sql [(''title'', JStr ''title''), (''hasEquity'', JStr ''true'')] =
     Inr \<lparr>filters = [''title ILIKE $1'', ''equity > $2''],
          filtersValues = [JStr ''%title%'', JNum 0],
          filtersQuery = JStr ''title ILIKE $1 AND equity > $2'',
          sqlQuery = job_select ''title ILIKE $1 AND equity > $2''\<rparr> \<and>
   Job_filter (\<lambda>c vs r. c = ''equity > $2'' \<longrightarrow> obj_get r ''equity'' \<noteq> JStr ''0.0'')
       (\<lambda>v. 0 :: nat) test_db [(''title'', JStr ''title''), (''hasEquity'', JStr ''true'')] =
     Inr [] \<and>
   Job_filter (\<lambda>c vs r. c = ''equity > $2'' \<longrightarrow> obj_get r ''equity'' \<noteq> JStr ''0.0'')
       (\<lambda>v. 0 :: nat) test_db [(''title'', JStr ''title''), (''hasEquity'', JStr ''false'')] =
     Inr [[(''id'', JNum 1), (''title'', JStr ''title1''), (''salary'', JNum 100),
           (''equity'', JStr ''0.0''), (''company_handle'', JStr ''c1'')]]"
proof -
  have v1: "\<forall>k. has_key [(''title'', JStr ''title''), (''hasEquity'', JStr ''true'')] k \<longrightarrow>
      k \<in> {''title'', ''minSalary'', ''hasEquity''}"
    by (auto simp: has_key_def)
  have v2: "\<forall>k. has_key [(''title'', JStr ''title''), (''hasEquity'', JStr ''false'')] k \<longrightarrow>
      k \<in> {''title'', ''minSalary'', ''hasEquity''}"
    by (auto simp: has_key_def)
  have o1: "job_other_conditions [(''title'', JStr ''title''), (''hasEquity'', JStr ''true'')] =
      ([''title ILIKE $1''], [JStr ''%title%''])"
    by (simp add: job_other_conditions_def has_key_def obj_get_def js_get_def)
  have o2: "job_other_conditions [(''title'', JStr ''title''), (''hasEquity'', JStr ''false'')] =
      ([''title ILIKE $1''], [JStr ''%title%''])"
    by (simp add: job_other_conditions_def has_key_def obj_get_def js_get_def)
  show ?thesis
    using Job_filter_hasEquity [OF v1 o1,
        of "\<lambda>c vs r. c = ''equity > $2'' \<longrightarrow> obj_get r ''equity'' \<noteq> JStr ''0.0''"
           "\<lambda>v. 0 :: nat" test_db]
      Job_filter_hasEquity [OF v2 o2,
        of "\<lambda>c vs r. c = ''equity > $2'' \<longrightarrow> obj_get r ''equity'' \<noteq> JStr ''0.0''"
           "\<lambda>v. 0 :: nat" test_db]
    by (simp add: obj_get_def js_get_def show_nat.simps job_rows_def test_db_def pg_param_def
          project_def job_cols_def)
qed

lemma Job_filter_invalid:
  "list_ex (\<lambda>key. key \<notin> set Job_validFilters) (map fst q) \<Longrightarrow>
   Job_filter_sql q = Inl (BadRequestError ''Invalid filter'') \<and>
   Job_filter holds rank d q = Inl (BadRequestError ''Invalid filter'')"
  by (simp add: Job_filter_def Job_filter_sql_def)

lemma Company_filter_invalid:
  "list_ex (\<lambda>key. key \<notin> set Company_validFilters) (map fst q) \<Longrightarrow>
   Company_filter_sql Number q = Inl (BadRequestError ''Invalid filter'') \<and>
   Company_filter holds rank Number d q = Inl (BadRequestError ''Invalid filter'')"
  by (simp add: Company_filter_def Company_filter_sql_def)

lemma Company_filter_min_max:
  assumes "has_key q ''minEmployees''" "has_key q ''maxEmployees''"
    "Number (obj_get q ''minEmployees'') = Some a" "Number (obj_get q ''maxEmployees'') = Some b"
    "a > b"
  shows "\<exists>msg. Company_filter_sql Number q = Inl (BadRequestError msg) \<and>
     Company_filter holds rank Number d q = Inl (BadRequestError msg)"
  using assms by (simp add: Company_filter_def Company_filter_sql_def js_gt_def)

text \<open>
  C6. A query with a key outside the recognised ones fails with \<open>BadRequest\<close> and the
  message \<open>Invalid filter\<close>, for companies and for jobs, whatever its other keys are. A
  company query that has both \<open>minEmployees\<close> and \<open>maxEmployees\<close>, the number of the first
  greater than the number of the second, fails with \<open>BadRequest\<close>. In both cases the
  failure comes before the statement is built, so that none is issued.
\<close>

theorem filter_BadRequest:
  "((\<exists>k. has_key q k \<and> k \<notin> {''name'', ''minEmployees'', ''maxEmployees''}) \<longrightarrow>
      Company_filter_sql Number q = Inl (BadRequestError ''Invalid filter'') \<and>
      Company_filter holds rank Number d q = Inl (BadRequestError ''Invalid filter'')) \<and>
   ((\<exists>k. has_key q k \<and> k \<notin> {''title'', ''minSalary'', ''hasEquity''}) \<longrightarrow>
      Job_filter_sql q = Inl (BadRequestError ''Invalid filter'') \<and>
      Job_filter holds rank' d q = Inl (BadRequestError ''Invalid filter'')) \<and>
   (has_key q ''minEmployees'' \<and> has_key q ''maxEmployees'' \<and>
    Number (obj_get q ''minEmployees'') = Some a \<and>
    Number (obj_get q ''maxEmployees'') = Some b \<and> a > b \<longrightarrow>
      (\<exists>msg. Company_filter_sql Number q = Inl (BadRequestError msg) \<and>
             Company_filter holds rank Number d q = Inl (BadRequestError msg)))"
proof (intro conjI impI)
  assume "\<exists>k. has_key q k \<and> k \<notin> {''name'', ''minEmployees'', ''maxEmployees''}"
  then have "list_ex (\<lambda>key. key \<notin> set Company_validFilters) (map fst q)"
    by (auto simp: list_ex_iff has_key_def Company_validFilters_def)
  then show "Company_filter_sql Number q = Inl (BadRequestError ''Invalid filter'')"
    and "Company_filter holds rank Number d q = Inl (BadRequestError ''Invalid filter'')"
    using Company_filter_invalid by blast+
next
  assume "\<exists>k. has_key q k \<and> k \<notin> {''title'', ''minSalary'', ''hasEquity''}"
  then have "list_ex (\<lambda>key. key \<notin> set Job_validFilters) (map fst q)"
    by (auto simp: list_ex_iff has_key_def Job_validFilters_def)
  then show "Job_filter_sql q = Inl (BadRequestError ''Invalid filter'')"
    and "Job_filter holds rank' d q = Inl (BadRequestError ''Invalid filter'')"
    using Job_filter_invalid by blast+
next
  assume "has_key q ''minEmployees'' \<and> has_key q ''maxEmployees'' \<and>
    Number (obj_get q ''minEmployees'') = Some a \<and>
    Number (obj_get q ''maxEmployees'') = Some b \<and> a > b"
  then show "\<exists>msg. Company_filter_sql Number q = Inl (BadRequestError msg) \<and>
             Company_filter holds rank Number d q = Inl (BadRequestError msg)"
    using Company_filter_min_max [of q Number a b] by simp
qed

theorem filter_BadRequest_witness:
  "Company_filter (\<lambda>c vs r. True) (\<lambda>v. 0 :: nat)
       (\<lambda>v. case v of JNum n \<Rightarrow> Some n | _ \<Rightarrow> None) test_db
       [(''name'', JStr ''c''), (''my'', JStr ''filter'')] =
     Inl (BadRequestError ''Invalid filter'') \<and>
   Job_filter (\<lambda>c vs r. True) (\<lambda>v. 0 :: nat) test_db
       [(''my'', JStr ''filter''), (''title'', JStr ''todd'')] =
     Inl (BadRequestError ''Invalid filter'') \<and>
   (\<exists>msg. Company_filter (\<lambda>c vs r. True) (\<lambda>v. 0 :: nat)
       (\<lambda>v. case v of JNum n \<Rightarrow> Some n | _ \<Rightarrow> None) test_db
       [(''minEmployees'', JNum 5), (''maxEmployees'', JNum 2)] =
     Inl (BadRequestError msg))"
proof -
  have k1: "\<exists>k. has_key [(''name'', JStr ''c''), (''my'', JStr ''filter'')] k \<and>
      k \<notin> {''name'', ''minEmployees'', ''maxEmployees''}"
    by (rule exI [of _ "''my''"]) (simp add: has_key_def)
  have k2: "\<exists>k. has_key [(''my'', JStr ''filter''), (''title'', JStr ''todd'')] k \<and>
      k \<notin> {''title'', ''minSalary'', ''hasEquity''}"
    by (rule exI [of _ "''my''"]) (simp add: has_key_def)
  have k3: "has_key [(''minEmployees'', JNum 5), (''maxEmployees'', JNum 2)] ''minEmployees'' \<and>
      has_key [(''minEmployees'', JNum 5), (''maxEmployees'', JNum 2)] ''maxEmployees'' \<and>
      (case obj_get [(''minEmployees'', JNum 5), (''maxEmployees'', JNum 2)] ''minEmployees'' of
         JNum n \<Rightarrow> Some n | _ \<Rightarrow> None) = Some (5 :: int) \<and>
      (case obj_get [(''minEmployees'', JNum 5), (''maxEmployees'', JNum 2)] ''maxEmployees'' of
         JNum n \<Rightarrow> Some n | _ \<Rightarrow> None) = Some (2 :: int) \<and> (5 :: int) > 2"
    by (simp add: has_key_def obj_get_def js_get_def)
  note c1 = filter_BadRequest [THEN conjunct1, THEN mp, OF k1, THEN conjunct2]
  note c2 = filter_BadRequest [THEN conjunct2, THEN conjunct1, THEN mp, OF k2, THEN conjunct2]
  have c3: "\<exists>msg. Company_filter_sql (\<lambda>v. case v of JNum n \<Rightarrow> Some n | _ \<Rightarrow> None)
        [(''minEmployees'', JNum 5), (''maxEmployees'', JNum 2)] = Inl (BadRequestError msg) \<and>
      Company_filter (\<lambda>c vs r. True) (\<lambda>v. 0 :: nat)
        (\<lambda>v. case v of JNum n \<Rightarrow> Some n | _ \<Rightarrow> None) test_db
        [(''minEmployees'', JNum 5), (''maxEmployees'', JNum 2)] = Inl (BadRequestError msg)"
    by (rule filter_BadRequest [THEN conjunct2, THEN conjunct2, THEN mp, OF k3])
  then obtain msg where "Company_filter (\<lambda>c vs r. True) (\<lambda>v. 0 :: nat)
        (\<lambda>v. case v of JNum n \<Rightarrow> Some n | _ \<Rightarrow> None) test_db
        [(''minEmployees'', JNum 5), (''maxEmployees'', JNum 2)] = Inl (BadRequestError msg)"
    by blast
  then show ?thesis using c1 c2 by blast
qed

lemma Job_no_clause_iff:
  "(fst (Job_filter_clauses q) = []) =
   (\<not> has_key q ''title'' \<and> \<not> has_key q ''minSalary'' \<and> obj_get q ''hasEquity'' \<noteq> JStr ''true'')"
  using obj_get_has_key [of q "''hasEquity''" "''true''"]
  by (auto simp: Job_filter_clauses_def)

lemma Job_no_clause_values:
  "fst (Job_filter_clauses q) = [] \<Longrightarrow> Job_filter_clauses q = ([], [])"
  by (auto simp: Job_filter_clauses_def split: if_splits)

lemma Job_filter_sql_no_clause:
  assumes "\<not> list_ex (\<lambda>key. key \<notin> set Job_validFilters) (map fst q)"
    and "fst (Job_filter_clauses q) = []"
  shows "Job_filter_sql q =
     Inr \<lparr>filters = [], filtersValues = [], filtersQuery = JUndefined,
          sqlQuery = ''SELECT id, title, salary, equity, company_handle'' @ nl @
                     ''      FROM jobs'' @ nl @ ''      WHERE undefined'' @ nl @
                     ''      ORDER BY company_handle''\<rparr>"
  using assms(1) Job_no_clause_values [OF assms(2)]
  by (simp add: Job_filter_sql_def filtersQuery_of_def)

lemma Job_filter_no_clause_DbError:
  assumes "\<not> list_ex (\<lambda>key. key \<notin> set Job_validFilters) (map fst q)"
    and "fst (Job_filter_clauses q) = []"
  shows "Job_filter holds rank d q = Inl DbError"
  by (simp add: Job_filter_def Job_filter_sql_no_clause [OF assms] db_filter_def)

text \<open>
  C9. A job query collects no condition exactly when it has neither \<open>title\<close> nor
  \<open>minSalary\<close> and its \<open>hasEquity\<close> is not the string \<open>true\<close>. When such a query has only
  recognised keys, \<open>Job.filter\<close> does not fail with \<open>BadRequest\<close>: the joined expression is
  \<open>undefined\<close>, the statement it issues reads \<open>WHERE undefined\<close>, and the call ends with
  the error of the store, not with a list of jobs.
\<close>

theorem Job_filter_no_clause:
  "((fst (Job_filter_clauses q) = []) =
      (\<not> has_key q ''title'' \<and> \<not> has_key q ''minSalary'' \<and>
       obj_get q ''hasEquity'' \<noteq> JStr ''true'')) \<and>
   ((\<forall>k. has_key q k \<longrightarrow> k \<in> {''title'', ''minSalary'', ''hasEquity''}) \<and>
    fst (Job_filter_clauses q) = [] \<longrightarrow>
      Job_filter_sql q =
        Inr \<lparr>filters = [], filtersValues = [], filtersQuery = JUndefined,
             sqlQuery = ''SELECT id, title, salary, equity, company_handle'' @ nl @
                        ''      FROM jobs'' @ nl @ ''      WHERE undefined'' @ nl @
                        ''      ORDER BY company_handle''\<rparr> \<and>
      Job_filter holds rank d q = Inl DbError)"
proof (intro conjI impI)
  show "(fst (Job_filter_clauses q) = []) =
      (\<not> has_key q ''title'' \<and> \<not> has_key q ''minSalary'' \<and>
       obj_get q ''hasEquity'' \<noteq> JStr ''true'')"
    by (rule Job_no_clause_iff)
next
  assume a: "(\<forall>k. has_key q k \<longrightarrow> k \<in> {''title'', ''minSalary'', ''hasEquity''}) \<and>
    fst (Job_filter_clauses q) = []"
  then have v: "\<not> list_ex (\<lambda>key. key \<notin> set Job_validFilters) (map fst q)"
    by (auto simp: list_ex_iff has_key_def Job_validFilters_def)
  from a have e: "fst (Job_filter_clauses q) = []" by simp
  show "Job_filter_sql q =
        Inr \<lparr>filters = [], filtersValues = [], filtersQuery = JUndefined,
             sqlQuery = ''SELECT id, title, salary, equity, company_handle'' @ nl @
                        ''      FROM jobs'' @ nl @ ''      WHERE undefined'' @ nl @
                        ''      ORDER BY company_handle''\<rparr>"
    by (rule Job_filter_sql_no_clause [OF v e])
  show "Job_filter holds rank d q = Inl DbError"
    by (rule Job_filter_no_clause_DbError [OF v e])
qed

theorem Job_filter_no_clause_witness:
  "fst (Job_filter_clauses [(''hasEquity'', JStr ''false'')]) = [] \<and>
   sqlQuery (projr (Job_filter_sql [(''hasEquity'', JStr ''false'')])) =
     ''SELECT id, title, salary, equity, company_handle'' @ nl @
     ''      FROM jobs'' @ nl @ ''      WHERE undefined'' @ nl @
     ''      ORDER BY company_handle'' \<and>
   Job_filter (\<lambda>c vs r. True) (\<lambda>v. 0 :: nat) test_db [(''hasEquity'', JStr ''false'')] =
     Inl DbError"
  using Job_filter_no_clause [of "[(''hasEquity'', JStr ''false'')]" "\<lambda>c vs r. True"
      "\<lambda>v. 0 :: nat" test_db]
  by (simp add: has_key_def obj_get_def js_get_def)

end
